theory Spec2Isabelle
  imports Main "HOL-Library.AList" "HOL-Library.Sublist" "HOL-Library.Char_ord"
    "HOL-Library.List_Lexorder"
begin

text \<open>
  A shallow embedding of the asset resolution and capture pipeline of snapdom: the plugin
  registry and hook runner (\<open>core/plugins.js\<close>), the image resolver \<open>fetchImage\<close> and the
  background entry resolver \<open>inlineSingleBackgroundEntry\<close>, and the capture orchestrator
  \<open>captureDOM\<close> (\<open>core/capture.js\<close>). Asynchronous functions return the final state of
  their promise together with the state they leave; the cache, the document and what the
  browser and the network answer are explicit.
\<close>

section \<open>JavaScript values, promises and errors\<close>

text \<open>
  The values that the modelled functions handle. An object is the ordered list of its own
  properties (an association list, looked up with \<^const>\<open>map_of\<close>, written with
  \<^const>\<open>AList.update\<close>, which keeps the position of a key that exists and appends a new
  one, as a property assignment does). A function value is an identifier; what it does
  when called is given by an interpretation that the caller of the model supplies.
  Inherited properties (the prototype chain), the built-in properties of function values
  and the numeric-keys-first enumeration order are outside the model; numbers are the
  integer ones.
\<close>

datatype jsval =
    JUndefined
  | JNull
  | JBool bool
  | JNum int
  | JStr string
  | JObj "(string \<times> jsval) list"
  | JFun nat

text \<open>Every \<open>new Error(...)\<close> of the sources, and \<open>Thrown\<close> for an exception that comes
  from a collaborator, the network or a hook.\<close>

datatype err =
    PluginNameRequired
  | ElementNull
  | InvalidImageDataURL
  | FileReaderError
  | CorsEvenViaProxy
  | NoProxyProvided
  | ImageLoadTimedOut
  | Thrown string

text \<open>The state of a promise once nothing more can happen to it: fulfilled, rejected, or
  never settled.\<close>

datatype 'a promise = Resolved 'a | Rejected err | Pending

fun truthy :: "jsval \<Rightarrow> bool" where
  "truthy JUndefined = False"
| "truthy JNull = False"
| "truthy (JBool b) = b"
| "truthy (JNum n) = (n \<noteq> 0)"
| "truthy (JStr s) = (s \<noteq> [])"
| "truthy (JObj ps) = True"
| "truthy (JFun f) = True"

fun digit_char :: "nat \<Rightarrow> char" where
  "digit_char n = char_of (48 + n mod 10)"

function decimal :: "nat \<Rightarrow> string" where
  "decimal n = (if n < 10 then [digit_char n] else decimal (n div 10) @ [digit_char n])"
  by pat_completeness auto
termination
  by (relation "measure id") auto

text \<open>The own enumerable properties that an object spread \<open>{...v}\<close> copies: those of an
  object, the indexed characters of a string, nothing for the other values.\<close>

fun own_props :: "jsval \<Rightarrow> (string \<times> jsval) list" where
  "own_props (JObj ps) = ps"
| "own_props (JStr s) = map (\<lambda>(i, c). (decimal i, JStr [c])) (enumerate 0 s)"
| "own_props v = []"

text \<open>\<open>v?.k\<close> and, on a value that is neither \<open>null\<close> nor \<open>undefined\<close>, \<open>v.k\<close> and
  \<open>v[k]\<close>: the own property, \<open>undefined\<close> when there is none.\<close>

definition get_prop :: "jsval \<Rightarrow> string \<Rightarrow> jsval" where
  "get_prop v k = (case map_of (own_props v) k of None \<Rightarrow> JUndefined | Some x \<Rightarrow> x)"

text \<open>\<open>{...a, ...b}\<close>: the properties of \<open>a\<close>, then those of \<open>b\<close> assigned in order.\<close>

definition spread2 :: "jsval \<Rightarrow> jsval \<Rightarrow> (string \<times> jsval) list" where
  "spread2 a b = fold (\<lambda>(k, v). AList.update k v) (own_props b) (own_props a)"

section \<open>Plugin registry and hook runner (src/core/plugins.js)\<close>

text \<open>\<open>pluginRegistry\<close> is a \<open>Map\<close>: keys in insertion order, a key set again keeps its
  place. Keys are compared with HOL equality, which is the comparison of \<open>Map\<close> on strings,
  numbers and booleans (a \<open>Map\<close> compares objects by identity).\<close>

type_synonym plugin_registry = "(jsval \<times> jsval) list"

datatype warning =
    Overwriting jsval
  | UnknownPluginName string
  | InvalidPluginSkipped jsval

definition registry_get :: "plugin_registry \<Rightarrow> jsval \<Rightarrow> jsval" where
  "registry_get reg k = (case map_of reg k of None \<Rightarrow> JUndefined | Some v \<Rightarrow> v)"

definition registry_has :: "plugin_registry \<Rightarrow> jsval \<Rightarrow> bool" where
  "registry_has reg k = (map_of reg k \<noteq> None)"

text \<open>\<open>use(plugin)\<close>: the error, or the new registry and the warnings printed.\<close>

definition use :: "plugin_registry \<Rightarrow> jsval \<Rightarrow> err + (plugin_registry \<times> warning list)" where
  "use reg plugin =
     (if \<not> truthy (get_prop plugin ''name'') then Inl PluginNameRequired
      else Inr (AList.update (get_prop plugin ''name'') plugin reg,
                if registry_has reg (get_prop plugin ''name'')
                then [Overwriting (get_prop plugin ''name'')] else []))"

definition getGlobalPlugins :: "plugin_registry \<Rightarrow> jsval list" where
  "getGlobalPlugins reg = map snd reg"

definition clearPlugins :: "plugin_registry \<Rightarrow> plugin_registry" where
  "clearPlugins reg = []"

text \<open>One turn of the loop of \<open>normalizePlugins\<close>: what the entry pushes on \<open>normalized\<close>
  and what it prints.\<close>

definition normalizeEntry :: "plugin_registry \<Rightarrow> bool \<Rightarrow> jsval \<Rightarrow> jsval list \<times> warning list" where
  "normalizeEntry reg debug entry =
     (case entry of
        JStr s \<Rightarrow>
          (let global = registry_get reg (JStr s)
           in if truthy global then ([global], [])
              else if debug then ([], [UnknownPluginName s])
              else ([], []))
      | JObj ps \<Rightarrow>
          (if truthy (get_prop entry ''name'') then
             (let base = registry_get reg (get_prop entry ''name'')
              in if truthy base then
                   ([JObj (AList.update ''options''
                             (JObj (spread2 (get_prop base ''options'') (get_prop entry ''options'')))
                             (own_props base))], [])
                 else ([entry], []))
           else if debug then ([], [InvalidPluginSkipped entry])
           else ([], []))
      | _ \<Rightarrow> (if debug then ([], [InvalidPluginSkipped entry]) else ([], [])))"

fun normalizePlugins :: "plugin_registry \<Rightarrow> jsval list \<Rightarrow> bool \<Rightarrow> jsval list \<times> warning list" where
  "normalizePlugins reg [] debug = ([], [])"
| "normalizePlugins reg (entry # rest) debug =
     (let (pushed, warned) = normalizeEntry reg debug entry;
          (normalized, warnings) = normalizePlugins reg rest debug
      in (pushed @ normalized, warned @ warnings))"

text \<open>The context that \<open>runHook\<close> receives and hands to every hook: \<open>context.plugins\<close>
  (an array, or absent), \<open>context.options?.debug\<close>, and the other fields, which hooks
  may read and write.\<close>

record capture_context =
  plugins :: "jsval list option"
  options_debug :: jsval
  other_fields :: "(string \<times> jsval) list"

text \<open>What calling a function value on the context does: the state of the promise it
  returns and the context as the call leaves it.\<close>

type_synonym hook_impl = "nat \<Rightarrow> capture_context \<Rightarrow> unit promise \<times> capture_context"

text \<open>The loop of \<open>runHook\<close> over the normalized plugins. Besides the promise and the
  context it returns the calls it made: the function called and the context handed to it.\<close>

fun runHookLoop :: "hook_impl \<Rightarrow> string \<Rightarrow> jsval list \<Rightarrow> capture_context
    \<Rightarrow> unit promise \<times> capture_context \<times> (nat \<times> capture_context) list" where
  "runHookLoop impl hookName [] ctx = (Resolved (), ctx, [])"
| "runHookLoop impl hookName (plugin # rest) ctx =
     (case get_prop plugin hookName of
        JFun f \<Rightarrow>
          (case impl f ctx of
             (Resolved u, ctx') \<Rightarrow>
               (let (r, ctx'', calls) = runHookLoop impl hookName rest ctx'
                in (r, ctx'', (f, ctx) # calls))
           | (Rejected e, ctx') \<Rightarrow> (Rejected e, ctx', [(f, ctx)])
           | (Pending, ctx') \<Rightarrow> (Pending, ctx', [(f, ctx)]))
      | _ \<Rightarrow> runHookLoop impl hookName rest ctx)"

definition runHook :: "plugin_registry \<Rightarrow> hook_impl \<Rightarrow> string \<Rightarrow> capture_context
    \<Rightarrow> unit promise \<times> capture_context \<times> (nat \<times> capture_context) list" where
  "runHook reg impl hookName ctx =
     (let allPlugins = fst (normalizePlugins reg (case plugins ctx of None \<Rightarrow> [] | Some ps \<Rightarrow> ps)
                              (truthy (options_debug ctx)))
      in runHookLoop impl hookName allPlugins ctx)"

section \<open>Resource cache, browser and network\<close>

datatype namespace = ImageNS | BackgroundNS | BaseStyleNS

datatype crossorigin = UseCredentials | Anonymous

text \<open>What a run does that can be observed from outside: the accesses to the cache, the
  requests that leave the page, the work handed to the image decoder, the console.\<close>

datatype event =
    CacheHas namespace string
  | CacheGet namespace string
  | CacheSet namespace string string
  | NetFetch string bool
  | ImageRequest string crossorigin
  | ImageDecode string
  | ConsoleError string

text \<open>
  Modelled from the spec: the Resource Cache (\<open>core/cache.js\<close> is not among the sources),
  "three independent mapping namespaces", \<open>image\<close>, \<open>background\<close> and \<open>baseStyle\<close>, "fully
  cleared at the start of every capture and on explicit reset request". The world holds
  them, the events so far, and the \<open>style.position\<close> of the element whose id is
  \<open>snapdom-sandbox\<close> (\<open>None\<close> when the document has no such element).
\<close>

record world =
  image :: "string \<rightharpoonup> string"
  background :: "string \<rightharpoonup> string"
  baseStyle :: "string \<rightharpoonup> string"
  trace :: "event list"
  sandbox :: "string option"

definition emit :: "event \<Rightarrow> world \<Rightarrow> world" where
  "emit e w = w\<lparr>trace := trace w @ [e]\<rparr>"

definition cache_reset :: "world \<Rightarrow> world" where
  "cache_reset w = w\<lparr>image := Map.empty, background := Map.empty, baseStyle := Map.empty\<rparr>"

text \<open>The option keys that the modelled functions read.\<close>

record options =
  useProxy :: jsval
  skipInline :: jsval
  embedFonts :: jsval
  compress :: jsval
  fast :: jsval
  option_plugins :: "jsval list option"

text \<open>How \<open>fetch(url).then(r => r.blob())\<close> followed by \<open>FileReader.readAsDataURL\<close> ends:
  the fetch or the body rejects, the reader fires \<open>error\<close>, the reader fires \<open>loadend\<close>
  with its \<open>result\<close> (a string, or \<open>null\<close>), or nothing ever answers.\<close>

datatype blob_outcome = FetchRejects err | ReaderError | ReaderEnds "string option" | BlobNever

datatype text_outcome = TextRejects err | TextIs string | TextNever

text \<open>Which of \<open>image.onload\<close> and \<open>image.onerror\<close> fires, and how many milliseconds after
  the timer was started.\<close>

datatype signal_kind = OnLoad | OnError

datatype image_signal = NoSignal | Signal nat signal_kind

text \<open>How the \<open>try\<close> block of \<open>image.onload\<close> ends: \<open>canvas.toDataURL\<close> gives a string,
  \<open>image.decode()\<close> or one of the canvas calls throws, or \<open>decode\<close> never settles.\<close>

datatype raster_outcome = Encoded string | RasterThrows | DecodeNever

text \<open>
  The answers of the browser and the network, and the two helpers that \<open>./helpers\<close>
  exports and the sources do not contain: \<open>extractURL\<close> (the payload of \<open>url(...)\<close>, or
  \<open>null\<close>) and \<open>safeEncodeURI\<close>. \<open>sameOrigin url\<close> is \<open>None\<close> when \<open>new URL(url, ...)\<close>
  throws; \<open>encodeURIComponent\<close> is \<open>None\<close> when it throws.
\<close>

record env =
  sameOrigin :: "string \<Rightarrow> bool option"
  fetchBlob :: "string \<Rightarrow> bool \<Rightarrow> blob_outcome"
  fetchText :: "string \<Rightarrow> bool \<Rightarrow> text_outcome"
  imageSignal :: "string \<Rightarrow> crossorigin \<Rightarrow> image_signal"
  rasterize :: "string \<Rightarrow> raster_outcome"
  encodeURIComponent :: "string \<Rightarrow> string option"
  extractURL :: "string \<Rightarrow> string option"
  safeEncodeURI :: "string \<Rightarrow> string"

section \<open>Image resolver (fetchImage)\<close>

definition timeout :: nat where
  "timeout = 5000"

definition getCrossOriginMode :: "env \<Rightarrow> string \<Rightarrow> crossorigin" where
  "getCrossOriginMode en url =
     (case sameOrigin en url of
        Some same \<Rightarrow> (if same then UseCredentials else Anonymous)
      | None \<Rightarrow> Anonymous)"

text \<open>The promise of \<open>fetchBlobAsDataURL\<close>: what the reader gave is kept only if it is a
  string that starts with \<open>data:image/\<close>.\<close>

definition dataURLOfBlob :: "blob_outcome \<Rightarrow> string promise" where
  "dataURLOfBlob b =
     (case b of
        FetchRejects e \<Rightarrow> Rejected e
      | ReaderError \<Rightarrow> Rejected FileReaderError
      | ReaderEnds None \<Rightarrow> Rejected InvalidImageDataURL
      | ReaderEnds (Some base64) \<Rightarrow>
          (if \<not> prefix ''data:image/'' base64 then Rejected InvalidImageDataURL
           else Resolved base64)
      | BlobNever \<Rightarrow> Pending)"

definition fetchBlobAsDataURL :: "env \<Rightarrow> string \<Rightarrow> world \<Rightarrow> string promise \<times> world" where
  "fetchBlobAsDataURL en fetchUrl w =
     (let include = (getCrossOriginMode en fetchUrl = UseCredentials)
      in (dataURLOfBlob (fetchBlob en fetchUrl include), emit (NetFetch fetchUrl include) w))"

text \<open>\<open>s.replace(/\/$/, "")\<close>: one slash at the very end goes.\<close>

definition stripTrailingSlash :: "string \<Rightarrow> string" where
  "stripTrailingSlash s = (if s \<noteq> [] \<and> last s = CHR ''/'' then butlast s else s)"

definition fetchWithFallback :: "env \<Rightarrow> options \<Rightarrow> string \<Rightarrow> world \<Rightarrow> string promise \<times> world" where
  "fetchWithFallback en opts url w =
     (case fetchBlobAsDataURL en url w of
        (Resolved d, w1) \<Rightarrow> (Resolved d, w1)
      | (Pending, w1) \<Rightarrow> (Pending, w1)
      | (Rejected e, w1) \<Rightarrow>
          (case useProxy opts of
             JStr p \<Rightarrow>
               (if p \<noteq> [] then
                  (let proxied = stripTrailingSlash p @ safeEncodeURI en url
                   in case fetchBlobAsDataURL en proxied w1 of
                        (Resolved d, w2) \<Rightarrow> (Resolved d, w2)
                      | (Pending, w2) \<Rightarrow> (Pending, w2)
                      | (Rejected e2, w2) \<Rightarrow> (Rejected CorsEvenViaProxy, w2))
                else (Rejected NoProxyProvided, w1))
           | _ \<Rightarrow> (Rejected NoProxyProvided, w1)))"

text \<open>\<open>/\.svg(\?.*)?$/i\<close>: somewhere \<open>.svg\<close> in any case, and then the end, or a question
  mark and no line terminator up to the end.\<close>

definition svgHere :: "string \<Rightarrow> bool" where
  "svgHere s =
     (case s of
        c1 # c2 # c3 # c4 # rest \<Rightarrow>
          c1 = CHR ''.'' \<and> (c2 = CHR ''s'' \<or> c2 = CHR ''S'') \<and> (c3 = CHR ''v'' \<or> c3 = CHR ''V'')
          \<and> (c4 = CHR ''g'' \<or> c4 = CHR ''G'')
          \<and> (case rest of
                 [] \<Rightarrow> True
               | q # tail \<Rightarrow> q = CHR ''?'' \<and> CHR 0x0A \<notin> set tail \<and> CHR 0x0D \<notin> set tail)
      | _ \<Rightarrow> False)"

fun isSVG :: "string \<Rightarrow> bool" where
  "isSVG [] = False"
| "isSVG (c # cs) = (svgHere (c # cs) \<or> isSVG cs)"

text \<open>The fallback of both handlers: fetch, and cache what the fetch gave.\<close>

definition fallbackAndCache :: "env \<Rightarrow> options \<Rightarrow> string \<Rightarrow> world \<Rightarrow> string promise \<times> world" where
  "fallbackAndCache en opts src w =
     (case fetchWithFallback en opts src w of
        (Resolved fallbackDataURL, w1) \<Rightarrow>
          (Resolved fallbackDataURL,
           emit (CacheSet ImageNS src fallbackDataURL) (w1\<lparr>image := (image w1)(src \<mapsto> fallbackDataURL)\<rparr>))
      | (Rejected e, w1) \<Rightarrow> (Rejected e, w1)
      | (Pending, w1) \<Rightarrow> (Pending, w1))"

text \<open>The bodies of \<open>image.onload\<close> and \<open>image.onerror\<close>: what each would hand to
  \<open>resolve\<close> or \<open>reject\<close>, and the world it leaves.\<close>

definition imageHandler :: "env \<Rightarrow> options \<Rightarrow> string \<Rightarrow> signal_kind \<Rightarrow> world \<Rightarrow> string promise \<times> world" where
  "imageHandler en opts src k w =
     (case k of
        OnLoad \<Rightarrow>
          (let w1 = emit (ImageDecode src) w
           in case rasterize en src of
                Encoded dataURL \<Rightarrow>
                  (Resolved dataURL,
                   emit (CacheSet ImageNS src dataURL) (w1\<lparr>image := (image w1)(src \<mapsto> dataURL)\<rparr>))
              | RasterThrows \<Rightarrow> fallbackAndCache en opts src w1
              | DecodeNever \<Rightarrow> (Pending, w1))
      | OnError \<Rightarrow>
          fallbackAndCache en opts src
            (emit (ConsoleError (''[SnapDOM - fetchImage] Image failed to load: '' @ src)) w))"

text \<open>
  \<open>fetchImage(src, options)\<close>: the promise it returns, and the world at the moment the
  promise settles (for a promise that never settles, once nothing more happens). A signal
  of the image is handled before the timer when it comes earlier than \<open>timeout\<close>
  milliseconds; from \<open>timeout\<close> on the timer has rejected the promise first.
\<close>

definition fetchImage :: "env \<Rightarrow> options \<Rightarrow> string \<Rightarrow> world \<Rightarrow> string promise \<times> world" where
  "fetchImage en opts src w =
     (let crossOriginValue = getCrossOriginMode en src;
          w0 = emit (CacheHas ImageNS src) w
      in case image w0 src of
           Some cached \<Rightarrow> (Resolved cached, emit (CacheGet ImageNS src) w0)
         | None \<Rightarrow>
             if prefix ''data:image/'' src then
               (Resolved src, emit (CacheSet ImageNS src src) (w0\<lparr>image := (image w0)(src \<mapsto> src)\<rparr>))
             else if isSVG src then
               (let w1 = emit (NetFetch src (crossOriginValue = UseCredentials)) w0
                in case fetchText en src (crossOriginValue = UseCredentials) of
                     TextRejects e \<Rightarrow> fetchWithFallback en opts src w1
                   | TextNever \<Rightarrow> (Pending, w1)
                   | TextIs svgText \<Rightarrow>
                       (case encodeURIComponent en svgText of
                          None \<Rightarrow> fetchWithFallback en opts src w1
                        | Some enc \<Rightarrow>
                            (let encoded = ''data:image/svg+xml;charset=utf-8,'' @ enc
                             in (Resolved encoded,
                                 emit (CacheSet ImageNS src encoded)
                                   (w1\<lparr>image := (image w1)(src \<mapsto> encoded)\<rparr>)))))
             else
               (let w1 = emit (ImageRequest src crossOriginValue) w0
                in case imageSignal en src crossOriginValue of
                     NoSignal \<Rightarrow> (Rejected ImageLoadTimedOut, w1)
                   | Signal t k \<Rightarrow>
                       if t < timeout then imageHandler en opts src k w1
                       else (Rejected ImageLoadTimedOut, w1)))"

text \<open>
  The world once every callback that the call registered has run. Nothing cancels the
  image or detaches its handlers when the timer rejects, so a signal that comes after the
  timer still runs its handler, whose \<open>resolve\<close> and \<open>reject\<close> then do nothing.
\<close>

definition fetchImageAtRest :: "env \<Rightarrow> options \<Rightarrow> string \<Rightarrow> world \<Rightarrow> world" where
  "fetchImageAtRest en opts src w =
     (let (r, w1) = fetchImage en opts src w
      in if image w src = None \<and> \<not> prefix ''data:image/'' src \<and> \<not> isSVG src then
           (case imageSignal en src (getCrossOriginMode en src) of
              NoSignal \<Rightarrow> w1
            | Signal t k \<Rightarrow> if t < timeout then w1 else snd (imageHandler en opts src k w1))
         else w1)"

section \<open>Background entry resolver (inlineSingleBackgroundEntry)\<close>

definition lowerASCII :: "char \<Rightarrow> char" where
  "lowerASCII c =
     (if 65 \<le> (of_char c :: nat) \<and> (of_char c :: nat) \<le> 90 then char_of ((of_char c :: nat) + 32) else c)"

text \<open>\<open>/^((repeating-)?(linear|radial|conic)-gradient)\(/i.test(entry)\<close>\<close>

definition isGradient :: "string \<Rightarrow> bool" where
  "isGradient entry =
     (let e = map lowerASCII entry
      in prefix ''linear-gradient('' e \<or> prefix ''radial-gradient('' e \<or> prefix ''conic-gradient('' e
         \<or> prefix ''repeating-linear-gradient('' e \<or> prefix ''repeating-radial-gradient('' e
         \<or> prefix ''repeating-conic-gradient('' e)"

definition dquote :: char where
  "dquote = CHR 0x22"

text \<open>The result is \<open>None\<close> for \<open>void 0\<close>. A payload that is \<open>null\<close> or the empty string is
  falsy.\<close>

definition inlineSingleBackgroundEntry ::
    "env \<Rightarrow> options \<Rightarrow> string \<Rightarrow> world \<Rightarrow> string option promise \<times> world" where
  "inlineSingleBackgroundEntry en opts entry w =
     (let rawUrl = extractURL en entry;
          gradient = isGradient entry
      in if rawUrl \<noteq> None \<and> rawUrl \<noteq> Some [] then
           (let encodedUrl = safeEncodeURI en (the rawUrl);
                w0 = emit (CacheHas BackgroundNS encodedUrl) w
            in case background w0 encodedUrl of
                 Some cached \<Rightarrow>
                   (if truthy (skipInline opts) then (Resolved None, w0)
                    else (Resolved (Some (''url('' @ cached @ '')'')),
                          emit (CacheGet BackgroundNS encodedUrl) w0))
               | None \<Rightarrow>
                   (case fetchImage en opts encodedUrl w0 of
                      (Resolved dataUrl, w1) \<Rightarrow>
                        (Resolved (if truthy (skipInline opts) then None
                                   else Some (''url('' @ [dquote] @ dataUrl @ [dquote] @ '')'')),
                         emit (CacheSet BackgroundNS encodedUrl dataUrl)
                           (w1\<lparr>background := (background w1)(encodedUrl \<mapsto> dataUrl)\<rparr>))
                    | (Rejected e, w1) \<Rightarrow> (Rejected e, w1)
                    | (Pending, w1) \<Rightarrow> (Pending, w1)))
         else if gradient \<or> entry = ''none'' then (Resolved (Some entry), w)
         else (Resolved (Some entry), w))"

section \<open>Capture orchestrator (src/core/capture.js)\<close>

type_synonym element = nat

text \<open>The calls on other modules that a capture can be made of; \<open>CallRunHook h\<close> stands
  for \<open>runHook(h, ...)\<close> of \<open>core/plugins.js\<close>.\<close>

datatype call =
    CallCacheReset
  | CallPrepareClone
  | CallInlineImages
  | CallInlineBackgroundImages
  | CallEmbedCustomFonts
  | CallGetBaseCSS
  | CallBuildSVGDataURL
  | CallSandboxRemove
  | CallRunHook string

text \<open>
  The modules that \<open>capture.js\<close> imports and the sources do not contain, each an arbitrary
  asynchronous step on the world. \<open>buildSVGDataURL\<close> is in the source; its body (the
  geometry of the element in floating point, the serialisation of the DOM, read from
  \<open>scale\<close>, \<open>width\<close>, \<open>height\<close> and \<open>fast\<close>) is not modelled, only that its promise resolves
  with the data URL or rejects with what its \<open>try\<close> block caught.
\<close>

record collaborators =
  prepareClone :: "element \<Rightarrow> options \<Rightarrow> world \<Rightarrow> (element \<times> string) promise \<times> world"
  inlineImages :: "element \<Rightarrow> options \<Rightarrow> world \<Rightarrow> unit promise \<times> world"
  inlineBackgroundImages :: "element \<Rightarrow> element \<Rightarrow> options \<Rightarrow> world \<Rightarrow> unit promise \<times> world"
  embedCustomFonts :: "world \<Rightarrow> string promise \<times> world"
  collectUsedTagNames :: "element \<Rightarrow> string list"
  generateDedupedBaseCSS :: "string list \<Rightarrow> world \<Rightarrow> string promise \<times> world"
  buildSVGDataURL :: "element \<Rightarrow> element \<Rightarrow> string \<Rightarrow> string \<Rightarrow> string \<Rightarrow> options
    \<Rightarrow> world \<Rightarrow> string promise \<times> world"

text \<open>
  Modelled from the spec: \<open>idle\<close> of \<open>utils/helpers.js\<close>, which is not among the sources.
  The spec has \<open>fast\<close> "skip cooperative-yield delays": \<open>idle\<close> runs the function, at once
  or after a delay, and gives what it gives.
\<close>

definition idle :: "bool \<Rightarrow> (world \<Rightarrow> 'a promise \<times> world) \<Rightarrow> world \<Rightarrow> 'a promise \<times> world" where
  "idle quick fn = fn"

fun join :: "string \<Rightarrow> string list \<Rightarrow> string" where
  "join sep [] = []"
| "join sep [x] = x"
| "join sep (x # y # ys) = x @ sep @ join sep (y # ys)"

definition getBaseCSS :: "collaborators \<Rightarrow> element \<Rightarrow> world \<Rightarrow> string promise \<times> world" where
  "getBaseCSS cb clone w =
     (let usedTags = sort (collectUsedTagNames cb clone);
          tagKey = join '','' usedTags;
          w0 = emit (CacheHas BaseStyleNS tagKey) w
      in case baseStyle w0 tagKey of
           Some css \<Rightarrow> (Resolved css, emit (CacheGet BaseStyleNS tagKey) w0)
         | None \<Rightarrow>
             (case idle False (generateDedupedBaseCSS cb usedTags) w0 of
                (Resolved baseCSS, w1) \<Rightarrow>
                  (Resolved baseCSS,
                   emit (CacheSet BaseStyleNS tagKey baseCSS)
                     (w1\<lparr>baseStyle := (baseStyle w1)(tagKey \<mapsto> baseCSS)\<rparr>))
              | (Rejected e, w1) \<Rightarrow> (Rejected e, w1)
              | (Pending, w1) \<Rightarrow> (Pending, w1)))"

text \<open>A step of \<open>captureDOM\<close>: the promise, the world, and the calls made. \<open>andThen\<close> is
  \<open>await\<close>: what follows runs only when the promise resolves; a rejection leaves the
  function there, with the world as it is.\<close>

type_synonym 'a step = "world \<Rightarrow> 'a promise \<times> world \<times> call list"

definition called :: "call \<Rightarrow> (world \<Rightarrow> 'a promise \<times> world) \<Rightarrow> 'a step" where
  "called c fn w = (case fn w of (r, w1) \<Rightarrow> (r, w1, [c]))"

definition skip :: "'a \<Rightarrow> 'a step" where
  "skip a w = (Resolved a, w, [])"

definition andThen :: "'a step \<Rightarrow> ('a \<Rightarrow> 'b step) \<Rightarrow> 'b step" where
  "andThen m f w =
     (case m w of
        (Resolved a, w1, cs) \<Rightarrow> (case f a w1 of (r, w2, cs2) \<Rightarrow> (r, w2, cs @ cs2))
      | (Rejected e, w1, cs) \<Rightarrow> (Rejected e, w1, cs)
      | (Pending, w1, cs) \<Rightarrow> (Pending, w1, cs))"

text \<open>Step 5 of \<open>captureDOM\<close>: \<open>document.getElementById("snapdom-sandbox")\<close>, removed when its
  \<open>style.position\<close> is \<open>absolute\<close>.\<close>

definition cleanSandbox :: "unit step" where
  "cleanSandbox w =
     (if sandbox w = Some ''absolute'' then (Resolved (), w\<lparr>sandbox := None\<rparr>, [CallSandboxRemove])
      else (Resolved (), w, []))"

definition captureDOM :: "collaborators \<Rightarrow> element option \<Rightarrow> options \<Rightarrow> string step" where
  "captureDOM cb element opts =
     (case element of
        None \<Rightarrow> (\<lambda>w. (Rejected ElementNull, w, []))
      | Some el \<Rightarrow>
          andThen (called CallCacheReset (\<lambda>w. (Resolved (), cache_reset w))) (\<lambda>u.
          andThen (called CallPrepareClone (prepareClone cb el opts)) (\<lambda>(clone, classCSS).
          andThen (called CallInlineImages
                     (idle (truthy (fast opts)) (inlineImages cb clone opts))) (\<lambda>u.
          andThen (called CallInlineBackgroundImages
                     (idle (truthy (fast opts)) (inlineBackgroundImages cb el clone opts))) (\<lambda>u.
          andThen (if truthy (embedFonts opts)
                   then called CallEmbedCustomFonts (idle (truthy (fast opts)) (embedCustomFonts cb))
                   else skip []) (\<lambda>fontsCSS.
          andThen (if truthy (compress opts)
                   then called CallGetBaseCSS (getBaseCSS cb clone)
                   else skip []) (\<lambda>baseCSS.
          andThen (called CallBuildSVGDataURL
                     (buildSVGDataURL cb el clone classCSS fontsCSS baseCSS opts)) (\<lambda>dataURL.
          andThen cleanSandbox (\<lambda>u.
          skip dataURL)))))))))"

section \<open>Vocabulary of the properties\<close>

text \<open>The functions that the plugins of a list bind to a hook name, in list order.\<close>

fun hookFunctions :: "string \<Rightarrow> jsval list \<Rightarrow> nat list" where
  "hookFunctions hookName [] = []"
| "hookFunctions hookName (plugin # rest) =
     (case get_prop plugin hookName of
        JFun f \<Rightarrow> f # hookFunctions hookName rest
      | _ \<Rightarrow> hookFunctions hookName rest)"

text \<open>A list of calls is chained from a context when the first call receives that context
  and every later call receives the context that the call before it left, after the
  promise of that call resolved.\<close>

fun chained :: "hook_impl \<Rightarrow> capture_context \<Rightarrow> (nat \<times> capture_context) list \<Rightarrow> bool" where
  "chained impl ctx [] = True"
| "chained impl ctx ((f, c) # rest) =
     (c = ctx \<and> (rest = [] \<or> (fst (impl f c) = Resolved () \<and> chained impl (snd (impl f c)) rest)))"

fun context_after :: "hook_impl \<Rightarrow> capture_context \<Rightarrow> (nat \<times> capture_context) list \<Rightarrow> capture_context" where
  "context_after impl ctx [] = ctx"
| "context_after impl ctx ((f, c) # rest) = context_after impl (snd (impl f c)) rest"

text \<open>The events that are input or output: everything but the accesses to the cache.\<close>

fun is_io :: "event \<Rightarrow> bool" where
  "is_io (CacheHas ns k) = False"
| "is_io (CacheGet ns k) = False"
| "is_io (CacheSet ns k v) = False"
| "is_io e = True"

fun touches :: "namespace \<Rightarrow> event \<Rightarrow> bool" where
  "touches ns (CacheHas ns' k) = (ns' = ns)"
| "touches ns (CacheGet ns' k) = (ns' = ns)"
| "touches ns (CacheSet ns' k v) = (ns' = ns)"
| "touches ns e = False"

text \<open>How the fetch-and-convert of a URL ends in an environment.\<close>

definition fetchOutcome :: "env \<Rightarrow> string \<Rightarrow> string promise" where
  "fetchOutcome en url = dataURLOfBlob (fetchBlob en url (getCrossOriginMode en url = UseCredentials))"

text \<open>A source reference takes the raster path of \<open>fetchImage\<close> when it is not in the image
  cache, is no embedded-data reference and does not match the vector-image pattern.\<close>

definition rasterRef :: "world \<Rightarrow> string \<Rightarrow> bool" where
  "rasterRef w src = (image w src = None \<and> \<not> prefix ''data:image/'' src \<and> \<not> isSVG src)"

text \<open>A step runs no hook when \<open>runHook\<close> is not among its calls, whatever the world.\<close>

definition runsNoHook :: "'a step \<Rightarrow> bool" where
  "runsNoHook m = (\<forall>w h. CallRunHook h \<notin> set (snd (snd (m w))))"

text \<open>A step cleans when resolved when a world in which its promise resolves has no sandbox
  with \<open>position: absolute\<close>.\<close>

definition cleansWhenResolved :: "'a step \<Rightarrow> bool" where
  "cleansWhenResolved m =
     (\<forall>w r. fst (m w) = Resolved r \<longrightarrow> sandbox (fst (snd (m w))) \<noteq> Some ''absolute'')"

section \<open>Example inputs\<close>

definition example_plugins :: "jsval list" where
  "example_plugins =
     [JObj [(''name'', JStr ''A''), (''afterRender'', JFun 0)],
      JObj [(''name'', JStr ''quiet''), (''beforeClone'', JFun 2)],
      JObj [(''name'', JStr ''B''), (''afterRender'', JFun 1)]]"

definition example_impl :: hook_impl where
  "example_impl f c =
     (if f = 0 then (Resolved (), c\<lparr>other_fields := AList.update ''stamp'' (JNum 1) (other_fields c)\<rparr>)
      else if f = 1 then
        (Resolved (),
         c\<lparr>other_fields := AList.update ''seen'' (get_prop (JObj (other_fields c)) ''stamp'') (other_fields c)\<rparr>)
      else (Rejected (Thrown ''hook''), c))"

definition example_context :: capture_context where
  "example_context = \<lparr>plugins = Some example_plugins, options_debug = JUndefined, other_fields = []\<rparr>"

definition example_env :: env where
  "example_env =
     \<lparr>sameOrigin = (\<lambda>url. Some (prefix ''http://here/'' url)),
      fetchBlob = (\<lambda>url include.
        if url = ''http://cdn/a.png'' then ReaderEnds (Some ''data:image/png;base64,AAAA'')
        else FetchRejects (Thrown ''TypeError: Failed to fetch'')),
      fetchText = (\<lambda>url include. TextRejects (Thrown ''TypeError: Failed to fetch'')),
      imageSignal = (\<lambda>url mode. Signal 40 OnError),
      rasterize = (\<lambda>url. RasterThrows),
      encodeURIComponent = (\<lambda>s. Some s),
      extractURL = (\<lambda>entry. if prefix ''url('' entry then Some (butlast (drop 4 entry)) else None),
      safeEncodeURI = (\<lambda>url. url)\<rparr>"

definition example_world :: world where
  "example_world =
     \<lparr>image = Map.empty, background = Map.empty, baseStyle = Map.empty, trace = [], sandbox = None\<rparr>"

definition example_options :: options where
  "example_options =
     \<lparr>useProxy = JUndefined, skipInline = JUndefined, embedFonts = JUndefined,
      compress = JUndefined, fast = JBool True, option_plugins = None\<rparr>"

text \<open>A proxy base that ends with a slash, and a proxy that answers at the proxy base
  followed by the encoded reference.\<close>

definition example_proxy_options :: options where
  "example_proxy_options = example_options\<lparr>useProxy := JStr ''http://proxy/''\<rparr>"

definition example_literal_proxy_env :: env where
  "example_literal_proxy_env =
     example_env\<lparr>fetchBlob := (\<lambda>url include.
       if url = ''http://proxy/http://cdn/b.png'' then ReaderEnds (Some ''data:image/png;base64,BBBB'')
       else FetchRejects (Thrown ''TypeError: Failed to fetch''))\<rparr>"

text \<open>An image whose \<open>load\<close> comes a second after the timer, and decodes.\<close>

definition example_slow_env :: env where
  "example_slow_env =
     example_env\<lparr>imageSignal := (\<lambda>url mode. Signal 6000 OnLoad),
                 rasterize := (\<lambda>url. Encoded ''data:image/png;base64,CCCC'')\<rparr>"

text \<open>An image whose \<open>error\<close> comes a second after the timer, the fetch failing as well.\<close>

definition example_late_error_env :: env where
  "example_late_error_env = example_env\<lparr>imageSignal := (\<lambda>url mode. Signal 6000 OnError)\<rparr>"

text \<open>An image that loads and decodes at once.\<close>

definition example_loading_env :: env where
  "example_loading_env =
     example_env\<lparr>imageSignal := (\<lambda>url mode. Signal 40 OnLoad),
                 rasterize := (\<lambda>url. Encoded ''data:image/png;base64,DDDD'')\<rparr>"

text \<open>Collaborators that all succeed, \<open>prepareClone\<close> leaving the sandbox in the document;
  and the same with a \<open>buildSVGDataURL\<close> whose \<open>try\<close> block catches an error.\<close>

definition example_collaborators :: collaborators where
  "example_collaborators =
     \<lparr>prepareClone = (\<lambda>el opts w. (Resolved (el + 100, ''.c1{color:red}''), w\<lparr>sandbox := Some ''absolute''\<rparr>)),
      inlineImages = (\<lambda>clone opts w. (Resolved (), w)),
      inlineBackgroundImages = (\<lambda>el clone opts w. (Resolved (), w)),
      embedCustomFonts = (\<lambda>w. (Resolved [], w)),
      collectUsedTagNames = (\<lambda>clone. [''div'']),
      generateDedupedBaseCSS = (\<lambda>tags w. (Resolved ''div{}'', w)),
      buildSVGDataURL = (\<lambda>el clone classCSS fontsCSS baseCSS opts w.
        (Resolved ''data:image/svg+xml;charset=utf-8,X'', w))\<rparr>"

definition example_failing_collaborators :: collaborators where
  "example_failing_collaborators =
     example_collaborators\<lparr>buildSVGDataURL := (\<lambda>el clone classCSS fontsCSS baseCSS opts w.
        (Rejected (Thrown ''serializeToString''), w))\<rparr>"

section \<open>Properties\<close>

subsection \<open>Objects\<close>

lemma map_of_fold_update:
  "map_of (fold (\<lambda>(k, v). AList.update k v) bs as) k =
     (case map_of (rev bs) k of Some v \<Rightarrow> Some v | None \<Rightarrow> map_of as k)"
  by (induction bs arbitrary: as) (auto simp: AList.update_conv' split: option.splits)

lemma map_of_rev_distinct: "distinct (map fst xs) \<Longrightarrow> map_of (rev xs) = map_of xs"
  by (rule iffD2 [OF map_of_inject_set]) (simp_all add: rev_map [symmetric])

lemma map_of_spread2:
  "distinct (map fst (own_props b)) \<Longrightarrow>
   map_of (spread2 a b) k =
     (case map_of (own_props b) k of Some v \<Rightarrow> Some v | None \<Rightarrow> map_of (own_props a) k)"
  by (simp add: spread2_def map_of_fold_update map_of_rev_distinct)

lemma get_prop_spread2:
  "distinct (map fst (own_props b)) \<Longrightarrow>
   get_prop (JObj (spread2 a b)) k =
     (case map_of (own_props b) k of Some v \<Rightarrow> v | None \<Rightarrow> get_prop a k)"
  by (simp add: get_prop_def map_of_spread2 split: option.splits)

lemma get_prop_update_same: "get_prop (JObj (AList.update k v ps)) k = v"
  by (simp add: get_prop_def AList.update_conv')

lemma get_prop_update_other:
  "k' \<noteq> k \<Longrightarrow> get_prop (JObj (AList.update k v ps)) k' = get_prop (JObj ps) k'"
  by (simp add: get_prop_def AList.update_conv')

lemma get_prop_own_props: "get_prop (JObj (own_props v)) k = get_prop v k"
  by (simp add: get_prop_def)

subsection \<open>normalizePlugins\<close>

lemma normalizeEntry_override:
  assumes "truthy (get_prop (JObj ps) ''name'')"
    and "truthy (registry_get reg (get_prop (JObj ps) ''name''))"
  shows "normalizeEntry reg debug (JObj ps) =
     ([JObj (AList.update ''options''
         (JObj (spread2 (get_prop (registry_get reg (get_prop (JObj ps) ''name'')) ''options'')
                        (get_prop (JObj ps) ''options'')))
         (own_props (registry_get reg (get_prop (JObj ps) ''name''))))], [])"
  using assms by (simp add: normalizeEntry_def Let_def)

lemma normalizePlugins_single:
  "normalizePlugins reg [entry] debug = normalizeEntry reg debug entry"
  by (simp add: split_def)

text \<open>
  C10: when an inline object is merged onto the registered plugin of its name, the
  effective plugin has the registered plugin's value in every field but \<open>options\<close>
  (its hook functions among them), \<open>options\<close> is the merge of the two \<open>options\<close>, and an
  inline object with the same \<open>name\<close> and \<open>options\<close> gives the same result whatever its
  other fields are.
\<close>

theorem normalizePlugins_inline_fields_ignored:
  assumes "truthy (get_prop (JObj ps) ''name'')"
    and "truthy (registry_get reg (get_prop (JObj ps) ''name''))"
  shows "\<exists>eff. fst (normalizePlugins reg [JObj ps] debug) = [eff]
      \<and> (\<forall>k. k \<noteq> ''options'' \<longrightarrow>
             get_prop eff k = get_prop (registry_get reg (get_prop (JObj ps) ''name'')) k)
      \<and> get_prop eff ''options'' =
          JObj (spread2 (get_prop (registry_get reg (get_prop (JObj ps) ''name'')) ''options'')
                        (get_prop (JObj ps) ''options''))
      \<and> (\<forall>ps'. get_prop (JObj ps') ''name'' = get_prop (JObj ps) ''name''
               \<and> get_prop (JObj ps') ''options'' = get_prop (JObj ps) ''options''
             \<longrightarrow> normalizePlugins reg [JObj ps'] debug = normalizePlugins reg [JObj ps] debug)"
proof -
  let ?base = "registry_get reg (get_prop (JObj ps) ''name'')"
  let ?eff = "JObj (AList.update ''options''
         (JObj (spread2 (get_prop ?base ''options'') (get_prop (JObj ps) ''options'')))
         (own_props ?base))"
  have n: "normalizePlugins reg [JObj ps] debug = ([?eff], [])"
    by (simp only: normalizePlugins_single normalizeEntry_override [OF assms])
  have other: "\<forall>k. k \<noteq> ''options'' \<longrightarrow> get_prop ?eff k = get_prop ?base k"
    by (simp add: get_prop_update_other get_prop_own_props)
  have opts: "get_prop ?eff ''options'' =
      JObj (spread2 (get_prop ?base ''options'') (get_prop (JObj ps) ''options''))"
    by (rule get_prop_update_same)
  have same: "normalizePlugins reg [JObj ps'] debug = normalizePlugins reg [JObj ps] debug"
    if "get_prop (JObj ps') ''name'' = get_prop (JObj ps) ''name''
        \<and> get_prop (JObj ps') ''options'' = get_prop (JObj ps) ''options''" for ps'
  proof -
    from that assms have a: "truthy (get_prop (JObj ps') ''name'')"
      and b: "truthy (registry_get reg (get_prop (JObj ps') ''name''))" by simp_all
    show ?thesis
      by (simp only: normalizePlugins_single normalizeEntry_override [OF a b]
          normalizeEntry_override [OF assms] that)
  qed
  from n other opts same show ?thesis by (intro exI [of _ ?eff]) simp
qed

theorem normalizePlugins_inline_fields_ignored_witness:
  "truthy (get_prop (JObj [(''name'', JStr ''x''), (''beforeClone'', JFun 7),
                            (''afterRender'', JFun 8), (''options'', JObj [(''b'', JNum 2)])]) ''name'')
   \<and> truthy (registry_get
        [(JStr ''x'', JObj [(''name'', JStr ''x''), (''beforeClone'', JFun 0),
                            (''options'', JObj [(''a'', JNum 1)])])]
        (JStr ''x''))
   \<and> fst (normalizePlugins
        [(JStr ''x'', JObj [(''name'', JStr ''x''), (''beforeClone'', JFun 0),
                            (''options'', JObj [(''a'', JNum 1)])])]
        [JObj [(''name'', JStr ''x''), (''beforeClone'', JFun 7),
               (''afterRender'', JFun 8), (''options'', JObj [(''b'', JNum 2)])]] False)
      = [JObj [(''name'', JStr ''x''), (''beforeClone'', JFun 0),
               (''options'', JObj [(''a'', JNum 1), (''b'', JNum 2)])]]"
  using normalizePlugins_inline_fields_ignored
    [of "[(''name'', JStr ''x''), (''beforeClone'', JFun 7),
          (''afterRender'', JFun 8), (''options'', JObj [(''b'', JNum 2)])]"
        "[(JStr ''x'', JObj [(''name'', JStr ''x''), (''beforeClone'', JFun 0),
                            (''options'', JObj [(''a'', JNum 1)])])]" False]
  by (simp add: get_prop_def registry_get_def normalizeEntry_def spread2_def)

text \<open>
  C9: after \<open>use({name: "x", options: {a: 1}})\<close>, normalizing the local override
  \<open>{name: "x", options: {b: 2}}\<close> gives one effective plugin, whose options are
  \<open>{a: 1, b: 2}\<close>. In general, when an inline object is merged onto the registered plugin
  of its name, every field of the effective options has the value of the override where
  the override has the field, and the value of the registered options elsewhere (the
  override's options being an object, which has each key once).
\<close>

theorem normalizePlugins_override_merge:
  "(case use [] (JObj [(''name'', JStr ''x''), (''options'', JObj [(''a'', JNum 1)])]) of
      Inl e \<Rightarrow> False
    | Inr (reg, ws) \<Rightarrow>
        fst (normalizePlugins reg
               [JObj [(''name'', JStr ''x''), (''options'', JObj [(''b'', JNum 2)])]] debug)
        = [JObj [(''name'', JStr ''x''), (''options'', JObj [(''a'', JNum 1), (''b'', JNum 2)])]])
   \<and> (\<forall>reg ps k.
        truthy (get_prop (JObj ps) ''name'') \<longrightarrow>
        truthy (registry_get reg (get_prop (JObj ps) ''name'')) \<longrightarrow>
        distinct (map fst (own_props (get_prop (JObj ps) ''options''))) \<longrightarrow>
        (\<exists>eff. fst (normalizePlugins reg [JObj ps] debug) = [eff] \<and>
           get_prop (get_prop eff ''options'') k =
             (case map_of (own_props (get_prop (JObj ps) ''options'')) k of
                Some v \<Rightarrow> v
              | None \<Rightarrow> get_prop (get_prop (registry_get reg (get_prop (JObj ps) ''name'')) ''options'') k)))"
proof (intro conjI allI impI)
  show "case use [] (JObj [(''name'', JStr ''x''), (''options'', JObj [(''a'', JNum 1)])]) of
      Inl e \<Rightarrow> False
    | Inr (reg, ws) \<Rightarrow>
        fst (normalizePlugins reg
               [JObj [(''name'', JStr ''x''), (''options'', JObj [(''b'', JNum 2)])]] debug)
        = [JObj [(''name'', JStr ''x''), (''options'', JObj [(''a'', JNum 1), (''b'', JNum 2)])]]"
    by (simp add: use_def get_prop_def registry_has_def registry_get_def normalizeEntry_def
        spread2_def)
next
  fix reg ps k
  assume n: "truthy (get_prop (JObj ps) ''name'')"
    and b: "truthy (registry_get reg (get_prop (JObj ps) ''name''))"
    and d: "distinct (map fst (own_props (get_prop (JObj ps) ''options'')))"
  let ?base = "registry_get reg (get_prop (JObj ps) ''name'')"
  let ?eff = "JObj (AList.update ''options''
        (JObj (spread2 (get_prop ?base ''options'') (get_prop (JObj ps) ''options'')))
        (own_props ?base))"
  have "fst (normalizePlugins reg [JObj ps] debug) = [?eff]"
    by (simp only: normalizePlugins_single normalizeEntry_override [OF n b] fst_conv)
  moreover have "get_prop (get_prop ?eff ''options'') k =
             (case map_of (own_props (get_prop (JObj ps) ''options'')) k of
                Some v \<Rightarrow> v
              | None \<Rightarrow> get_prop (get_prop ?base ''options'') k)"
    by (simp only: get_prop_update_same get_prop_spread2 [OF d])
  ultimately show "\<exists>eff. fst (normalizePlugins reg [JObj ps] debug) = [eff] \<and>
           get_prop (get_prop eff ''options'') k =
             (case map_of (own_props (get_prop (JObj ps) ''options'')) k of
                Some v \<Rightarrow> v
              | None \<Rightarrow> get_prop (get_prop ?base ''options'') k)"
    by blast
qed

theorem normalizePlugins_override_merge_witness:
  "truthy (get_prop (JObj [(''name'', JStr ''x''), (''options'', JObj [(''a'', JNum 5), (''b'', JNum 2)])]) ''name'')
   \<and> truthy (registry_get
        [(JStr ''x'', JObj [(''name'', JStr ''x''), (''options'', JObj [(''a'', JNum 1), (''c'', JNum 3)])])]
        (JStr ''x''))
   \<and> distinct (map fst [(''a'', JNum 5), (''b'', JNum 2)])
   \<and> (\<exists>eff. fst (normalizePlugins
          [(JStr ''x'', JObj [(''name'', JStr ''x''), (''options'', JObj [(''a'', JNum 1), (''c'', JNum 3)])])]
          [JObj [(''name'', JStr ''x''), (''options'', JObj [(''a'', JNum 5), (''b'', JNum 2)])]] False) = [eff]
        \<and> get_prop (get_prop eff ''options'') ''a'' = JNum 5)"
  using normalizePlugins_override_merge [of False, THEN conjunct2, rule_format,
    of "[(''name'', JStr ''x''), (''options'', JObj [(''a'', JNum 5), (''b'', JNum 2)])]"
       "[(JStr ''x'', JObj [(''name'', JStr ''x''), (''options'', JObj [(''a'', JNum 1), (''c'', JNum 3)])])]"
       "''a''"]
  by (simp add: get_prop_def registry_get_def)

subsection \<open>runHook\<close>

lemma runHookLoop_calls:
  "runHookLoop impl hookName ps ctx = (r, ctx', calls) \<Longrightarrow>
     prefix (map fst calls) (hookFunctions hookName ps) \<and>
     chained impl ctx calls \<and>
     ctx' = context_after impl ctx calls \<and>
     (r = Resolved () \<longrightarrow> map fst calls = hookFunctions hookName ps) \<and>
     (r \<noteq> Resolved () \<longrightarrow> calls \<noteq> [] \<and> fst (impl (fst (last calls)) (snd (last calls))) = r)"
proof (induction ps arbitrary: ctx r ctx' calls)
  case Nil
  then show ?case by simp
next
  case (Cons p ps)
  show ?case
  proof (cases "get_prop p hookName")
    case (JFun f)
    obtain r1 c1 where i: "impl f ctx = (r1, c1)" by (cases "impl f ctx")
    show ?thesis
    proof (cases r1)
      case (Resolved u)
      obtain r2 c2 calls2 where rec: "runHookLoop impl hookName ps c1 = (r2, c2, calls2)"
        by (cases "runHookLoop impl hookName ps c1")
      from Cons.prems JFun i Resolved rec
      have eq: "r = r2" "ctx' = c2" "calls = (f, ctx) # calls2" by simp_all
      from Cons.IH [OF rec] eq JFun i Resolved show ?thesis
        by (cases calls2) auto
    next
      case (Rejected e)
      with Cons.prems JFun i show ?thesis by auto
    next
      case Pending
      with Cons.prems JFun i show ?thesis by auto
    qed
  qed (use Cons in auto)
qed

text \<open>
  C7: the calls that \<open>runHook\<close> makes are, in list order, the functions that the normalized
  plugins bind to the hook name: all of them when the promise of \<open>runHook\<close> resolves, which
  it does when each of them resolves, and otherwise those up to the first whose promise
  does not resolve. The first call receives the context of \<open>runHook\<close> and every later call
  receives the context as the call before it left it, once that call's promise resolved;
  the context that \<open>runHook\<close> leaves is the one that the last call left.
\<close>

theorem runHook_sequential:
  assumes "runHook reg impl hookName ctx = (r, ctx', calls)"
    and "fs = hookFunctions hookName
           (fst (normalizePlugins reg (case plugins ctx of None \<Rightarrow> [] | Some ps \<Rightarrow> ps)
                  (truthy (options_debug ctx))))"
  shows "prefix (map fst calls) fs
     \<and> chained impl ctx calls
     \<and> ctx' = context_after impl ctx calls
     \<and> (r = Resolved () \<longrightarrow> map fst calls = fs)
     \<and> (r \<noteq> Resolved () \<longrightarrow> calls \<noteq> [] \<and> fst (impl (fst (last calls)) (snd (last calls))) = r)
     \<and> ((\<forall>f c. f \<in> set fs \<longrightarrow> fst (impl f c) = Resolved ()) \<longrightarrow> r = Resolved ())"
proof -
  from assms have loop: "runHookLoop impl hookName
      (fst (normalizePlugins reg (case plugins ctx of None \<Rightarrow> [] | Some ps \<Rightarrow> ps)
             (truthy (options_debug ctx)))) ctx = (r, ctx', calls)"
    by (simp add: runHook_def)
  note main = runHookLoop_calls [OF loop, folded assms(2)]
  have "r = Resolved ()" if all: "\<forall>f c. f \<in> set fs \<longrightarrow> fst (impl f c) = Resolved ()"
  proof (rule ccontr)
    assume nr: "r \<noteq> Resolved ()"
    with main have ne: "calls \<noteq> []"
      and bad: "fst (impl (fst (last calls)) (snd (last calls))) = r" by simp_all
    from ne have "fst (last calls) \<in> set (map fst calls)" by simp
    moreover from main have "set (map fst calls) \<subseteq> set fs" by (blast dest: set_mono_prefix)
    ultimately have "fst (last calls) \<in> set fs" by blast
    with all bad nr show False by metis
  qed
  with main show ?thesis by simp
qed

theorem runHook_sequential_witness:
  "runHook [] example_impl ''afterRender'' example_context =
     (Resolved (),
      example_context\<lparr>other_fields := [(''stamp'', JNum 1), (''seen'', JNum 1)]\<rparr>,
      [(0, example_context), (1, example_context\<lparr>other_fields := [(''stamp'', JNum 1)]\<rparr>)])
   \<and> [0, 1] = hookFunctions ''afterRender''
        (fst (normalizePlugins [] (case plugins example_context of None \<Rightarrow> [] | Some ps \<Rightarrow> ps)
               (truthy (options_debug example_context))))
   \<and> prefix (map fst [(0, example_context), (1, example_context\<lparr>other_fields := [(''stamp'', JNum 1)]\<rparr>)])
        [0, 1]
   \<and> chained example_impl example_context
        [(0, example_context), (1, example_context\<lparr>other_fields := [(''stamp'', JNum 1)]\<rparr>)]"
  using runHook_sequential [of "[]" example_impl "''afterRender''" example_context "Resolved ()"
      "example_context\<lparr>other_fields := [(''stamp'', JNum 1), (''seen'', JNum 1)]\<rparr>"
      "[(0, example_context), (1, example_context\<lparr>other_fields := [(''stamp'', JNum 1)]\<rparr>)]"
      "[0, 1]"]
  by (simp add: runHook_def example_context_def example_plugins_def example_impl_def
      normalizeEntry_def registry_get_def get_prop_def)

subsection \<open>fetchImage\<close>

lemma emit_simps [simp]:
  "image (emit e w) = image w" "background (emit e w) = background w"
  "baseStyle (emit e w) = baseStyle w" "sandbox (emit e w) = sandbox w"
  "trace (emit e w) = trace w @ [e]"
  by (simp_all add: emit_def)

text \<open>
  C5: when the image cache has an entry for \<open>src\<close>, \<open>fetchImage\<close> resolves with the cached
  value, and all it does is ask the cache (\<open>has\<close>, then \<open>get\<close>): no request, no decoding, no
  console output is added to the trace, and the three cache namespaces are as before.
\<close>

theorem fetchImage_cache_hit:
  assumes "image w src = Some cached"
  shows "fst (fetchImage en opts src w) = Resolved cached
     \<and> trace (snd (fetchImage en opts src w)) = trace w @ [CacheHas ImageNS src, CacheGet ImageNS src]
     \<and> filter is_io (trace (snd (fetchImage en opts src w))) = filter is_io (trace w)
     \<and> image (snd (fetchImage en opts src w)) = image w
     \<and> background (snd (fetchImage en opts src w)) = background w
     \<and> baseStyle (snd (fetchImage en opts src w)) = baseStyle w"
  using assms by (simp add: fetchImage_def Let_def)

theorem fetchImage_cache_hit_witness:
  "image (example_world\<lparr>image := [''http://cdn/a.png'' \<mapsto> ''data:image/png;base64,AAAA'']\<rparr>)
     ''http://cdn/a.png'' = Some ''data:image/png;base64,AAAA''
   \<and> fst (fetchImage example_env example_options ''http://cdn/a.png''
        (example_world\<lparr>image := [''http://cdn/a.png'' \<mapsto> ''data:image/png;base64,AAAA'']\<rparr>))
      = Resolved ''data:image/png;base64,AAAA''
   \<and> filter is_io (trace (snd (fetchImage example_env example_options ''http://cdn/a.png''
        (example_world\<lparr>image := [''http://cdn/a.png'' \<mapsto> ''data:image/png;base64,AAAA'']\<rparr>)))) = []"
  using fetchImage_cache_hit [of
      "example_world\<lparr>image := [''http://cdn/a.png'' \<mapsto> ''data:image/png;base64,AAAA'']\<rparr>"
      "''http://cdn/a.png''" "''data:image/png;base64,AAAA''" example_env example_options]
  by (simp add: example_world_def)

subsection \<open>Fallback escalation\<close>

lemma fetchWithFallback_fst:
  "fst (fetchWithFallback en opts url w) =
     (case fetchOutcome en url of
        Resolved d \<Rightarrow> Resolved d
      | Pending \<Rightarrow> Pending
      | Rejected e \<Rightarrow>
          (case useProxy opts of
             JStr p \<Rightarrow>
               (if p \<noteq> [] then
                  (case fetchOutcome en (stripTrailingSlash p @ safeEncodeURI en url) of
                     Resolved d \<Rightarrow> Resolved d
                   | Pending \<Rightarrow> Pending
                   | Rejected e2 \<Rightarrow> Rejected CorsEvenViaProxy)
                else Rejected NoProxyProvided)
           | _ \<Rightarrow> Rejected NoProxyProvided))"
  by (simp add: fetchWithFallback_def fetchBlobAsDataURL_def fetchOutcome_def Let_def
      split: promise.splits jsval.splits)

lemma fallbackAndCache_fst:
  "fst (fallbackAndCache en opts src w) = fst (fetchWithFallback en opts src w)"
  by (simp add: fallbackAndCache_def split: prod.splits promise.splits)

lemma fetchImage_raster:
  assumes "rasterRef w src"
  shows "fetchImage en opts src w =
     (case imageSignal en src (getCrossOriginMode en src) of
        NoSignal \<Rightarrow>
          (Rejected ImageLoadTimedOut,
           emit (ImageRequest src (getCrossOriginMode en src)) (emit (CacheHas ImageNS src) w))
      | Signal t k \<Rightarrow>
          if t < timeout then
            imageHandler en opts src k
              (emit (ImageRequest src (getCrossOriginMode en src)) (emit (CacheHas ImageNS src) w))
          else (Rejected ImageLoadTimedOut,
                emit (ImageRequest src (getCrossOriginMode en src)) (emit (CacheHas ImageNS src) w)))"
proof -
  from assms have a: "image w src = None" and b: "\<not> prefix ''data:image/'' src" and c: "\<not> isSVG src"
    by (simp_all add: rasterRef_def)
  show ?thesis
    unfolding fetchImage_def Let_def by (simp only: emit_simps a b c option.case if_False)
qed

lemma imageHandler_failed_fst:
  assumes "k = OnError \<or> rasterize en src = RasterThrows"
  shows "fst (imageHandler en opts src k w) = fst (fetchWithFallback en opts src w)"
proof (cases k)
  case OnLoad
  with assms have "rasterize en src = RasterThrows" by simp
  with OnLoad show ?thesis
    by (simp add: imageHandler_def Let_def fallbackAndCache_fst fetchWithFallback_fst)
next
  case OnError
  then show ?thesis
    by (simp add: imageHandler_def fallbackAndCache_fst fetchWithFallback_fst)
qed

lemma fetchImage_raster_failed:
  assumes "rasterRef w src"
    and "imageSignal en src (getCrossOriginMode en src) = Signal t k"
    and "t < timeout"
    and "k = OnError \<or> rasterize en src = RasterThrows"
  shows "fst (fetchImage en opts src w) = fst (fetchWithFallback en opts src w)"
  by (simp add: fetchImage_raster [OF assms(1)] assms(2,3) imageHandler_failed_fst [OF assms(4)]
      fetchWithFallback_fst)


text \<open>The steps of the fallback, for a raster reference whose \<open>error\<close> signal, or whose
  \<open>load\<close> signal followed by a throwing decode, comes before the timer.\<close>

lemma fetchImage_fallback_steps:
  assumes "rasterRef w src"
    and "imageSignal en src (getCrossOriginMode en src) = Signal t k"
    and "t < timeout"
    and "k = OnError \<or> rasterize en src = RasterThrows"
  shows "(fetchOutcome en src = Resolved d \<longrightarrow> fst (fetchImage en opts src w) = Resolved d)
     \<and> (fetchOutcome en src = Rejected e \<and> useProxy opts = JStr p \<and> p \<noteq> []
          \<and> fetchOutcome en (stripTrailingSlash p @ safeEncodeURI en src) = Resolved d
        \<longrightarrow> fst (fetchImage en opts src w) = Resolved d)
     \<and> (fetchOutcome en src = Rejected e \<and> useProxy opts = JStr p \<and> p \<noteq> []
          \<and> fetchOutcome en (stripTrailingSlash p @ safeEncodeURI en src) = Rejected e2
        \<longrightarrow> fst (fetchImage en opts src w) = Rejected CorsEvenViaProxy)"
  by (simp add: fetchImage_raster_failed [OF assms] fetchWithFallback_fst)

lemma stripTrailingSlash_no_slash: "p \<noteq> [] \<Longrightarrow> last p \<noteq> CHR ''/'' \<Longrightarrow> stripTrailingSlash p = p"
  by (simp add: stripTrailingSlash_def)

text \<open>With a proxy base that does not end with a slash, the proxy is asked at the base
  followed by the encoded reference.\<close>

lemma fetchImage_fallback_no_trailing_slash:
  assumes "rasterRef w src"
    and "imageSignal en src (getCrossOriginMode en src) = Signal t k"
    and "t < timeout"
    and "k = OnError \<or> rasterize en src = RasterThrows"
    and "useProxy opts = JStr p" and "p \<noteq> []" and "last p \<noteq> CHR ''/''"
    and "fetchOutcome en src = Rejected e"
  shows "(fetchOutcome en (p @ safeEncodeURI en src) = Resolved d
          \<longrightarrow> fst (fetchImage en opts src w) = Resolved d)
     \<and> (fetchOutcome en (p @ safeEncodeURI en src) = Rejected e2
          \<longrightarrow> fst (fetchImage en opts src w) = Rejected CorsEvenViaProxy)"
  using fetchImage_fallback_steps [OF assms(1-4), where opts = opts and p = p and e = e and d = d
      and ?e2.0 = e2] assms(5-8)
  by (simp add: stripTrailingSlash_no_slash)

text \<open>
  C4: with the proxy base \<open>http://proxy/\<close>, a reference whose \<open>error\<close> signal comes before
  the timer and whose direct fetch fails, and a proxy that answers at the base followed by
  the encoded reference, \<open>fetchImage\<close> is rejected with the error that names the proxy: its
  second request went to \<open>http://proxyhttp://cdn/b.png\<close>, the base without its slash followed
  by the encoded reference, and no request went to the base followed by the encoded
  reference.
\<close>

theorem fetchImage_proxy_trailing_slash:
  "rasterRef example_world ''http://cdn/b.png''
   \<and> imageSignal example_literal_proxy_env ''http://cdn/b.png''
        (getCrossOriginMode example_literal_proxy_env ''http://cdn/b.png'') = Signal 40 OnError
   \<and> 40 < timeout
   \<and> fetchOutcome example_literal_proxy_env ''http://cdn/b.png''
        = Rejected (Thrown ''TypeError: Failed to fetch'')
   \<and> useProxy example_proxy_options = JStr ''http://proxy/''
   \<and> fetchOutcome example_literal_proxy_env
        (''http://proxy/'' @ safeEncodeURI example_literal_proxy_env ''http://cdn/b.png'')
        = Resolved ''data:image/png;base64,BBBB''
   \<and> fst (fetchImage example_literal_proxy_env example_proxy_options ''http://cdn/b.png'' example_world)
        = Rejected CorsEvenViaProxy
   \<and> filter is_io (trace (snd (fetchImage example_literal_proxy_env example_proxy_options
          ''http://cdn/b.png'' example_world)))
        = [ImageRequest ''http://cdn/b.png'' Anonymous,
           ConsoleError ''[SnapDOM - fetchImage] Image failed to load: http://cdn/b.png'',
           NetFetch ''http://cdn/b.png'' False,
           NetFetch ''http://proxyhttp://cdn/b.png'' False]"
proof -
  have r: "rasterRef example_world ''http://cdn/b.png''"
    by (simp add: rasterRef_def example_world_def svgHere_def)
  have s: "imageSignal example_literal_proxy_env ''http://cdn/b.png''
        (getCrossOriginMode example_literal_proxy_env ''http://cdn/b.png'') = Signal 40 OnError"
    by (simp add: example_env_def example_literal_proxy_env_def)
  have t: "40 < timeout" by (simp add: timeout_def)
  have o: "fetchOutcome example_literal_proxy_env ''http://cdn/b.png''
        = Rejected (Thrown ''TypeError: Failed to fetch'')"
    "fetchOutcome example_literal_proxy_env
        (''http://proxy/'' @ safeEncodeURI example_literal_proxy_env ''http://cdn/b.png'')
        = Resolved ''data:image/png;base64,BBBB''"
    by (simp_all add: fetchOutcome_def dataURLOfBlob_def example_env_def example_literal_proxy_env_def)
  have p: "useProxy example_proxy_options = JStr ''http://proxy/''"
    by (simp add: example_proxy_options_def)
  have m: "getCrossOriginMode example_literal_proxy_env ''http://cdn/b.png'' = Anonymous"
    "getCrossOriginMode example_literal_proxy_env ''http://proxyhttp://cdn/b.png'' = Anonymous"
    by (simp_all add: getCrossOriginMode_def example_env_def example_literal_proxy_env_def)
  have b: "fetchBlob example_literal_proxy_env ''http://cdn/b.png'' False
        = FetchRejects (Thrown ''TypeError: Failed to fetch'')"
    "fetchBlob example_literal_proxy_env ''http://proxyhttp://cdn/b.png'' False
        = FetchRejects (Thrown ''TypeError: Failed to fetch'')"
    "safeEncodeURI example_literal_proxy_env ''http://cdn/b.png'' = ''http://cdn/b.png''"
    by (simp_all add: example_env_def example_literal_proxy_env_def)
  have run: "fetchImage example_literal_proxy_env example_proxy_options ''http://cdn/b.png'' example_world
      = (Rejected CorsEvenViaProxy,
         example_world\<lparr>trace :=
           [CacheHas ImageNS ''http://cdn/b.png'',
            ImageRequest ''http://cdn/b.png'' Anonymous,
            ConsoleError ''[SnapDOM - fetchImage] Image failed to load: http://cdn/b.png'',
            NetFetch ''http://cdn/b.png'' False,
            NetFetch ''http://proxyhttp://cdn/b.png'' False]\<rparr>)"
    unfolding fetchImage_raster [OF r] s
    by (simp add: t imageHandler_def fallbackAndCache_def
        fetchWithFallback_def fetchBlobAsDataURL_def Let_def p m b dataURLOfBlob_def
        stripTrailingSlash_def emit_def example_world_def)
  from r s t o p show ?thesis by (simp add: run)
qed

subsection \<open>Timeout\<close>

lemma image_fetchWithFallback: "image (snd (fetchWithFallback en opts url w)) = image w"
  by (simp add: fetchWithFallback_def fetchBlobAsDataURL_def Let_def
      split: promise.splits jsval.splits)

lemma image_fallbackAndCache:
  "image (snd (fallbackAndCache en opts src w)) src =
     (case fst (fallbackAndCache en opts src w) of
        Resolved v \<Rightarrow> Some v
      | Rejected e \<Rightarrow> image w src
      | Pending \<Rightarrow> image w src)"
proof -
  obtain r w1 where f: "fetchWithFallback en opts src w = (r, w1)"
    by (cases "fetchWithFallback en opts src w")
  with image_fetchWithFallback [of en opts src w] have "image w1 = image w" by simp
  with f show ?thesis by (cases r) (simp_all add: fallbackAndCache_def)
qed

text \<open>A handler stores an image under the reference exactly when it resolves, and the
  image it stores is the one it resolves with.\<close>

lemma image_imageHandler:
  "image (snd (imageHandler en opts src k w)) src =
     (case fst (imageHandler en opts src k w) of
        Resolved v \<Rightarrow> Some v
      | Rejected e \<Rightarrow> image w src
      | Pending \<Rightarrow> image w src)"
proof (cases k)
  case OnLoad
  show ?thesis
  proof (cases "rasterize en src")
    case (Encoded d)
    with OnLoad show ?thesis by (simp add: imageHandler_def Let_def)
  next
    case RasterThrows
    with OnLoad image_fallbackAndCache [of en opts src "emit (ImageDecode src) w"]
    show ?thesis by (simp add: imageHandler_def Let_def split: promise.splits)
  next
    case DecodeNever
    with OnLoad show ?thesis by (simp add: imageHandler_def Let_def)
  qed
next
  case OnError
  with image_fallbackAndCache [of en opts src
      "emit (ConsoleError (''[SnapDOM - fetchImage] Image failed to load: '' @ src)) w"]
  show ?thesis by (simp add: imageHandler_def split: promise.splits)
qed

text \<open>
  C6, as the code has it: for a raster reference whose signals do not come before the
  timer (they never come, or come \<open>timeout\<close> = 5000 milliseconds or more after it was
  started), \<open>fetchImage\<close> is rejected with the timeout error, and at that moment the image
  cache has no entry for the reference. Once everything that the call started has run,
  the cache has the entry \<open>v\<close> for the reference exactly when a signal came after the timer
  and its handler resolved with \<open>v\<close>; so it has none when the signals never come, and none
  when the late handler is rejected or never settles.
\<close>

theorem fetchImage_timeout:
  assumes "rasterRef w src"
    and "imageSignal en src (getCrossOriginMode en src) = NoSignal
         \<or> (\<exists>t k. imageSignal en src (getCrossOriginMode en src) = Signal t k \<and> timeout \<le> t)"
  shows "timeout = 5000
     \<and> fst (fetchImage en opts src w) = Rejected ImageLoadTimedOut
     \<and> image (snd (fetchImage en opts src w)) src = None
     \<and> (image (fetchImageAtRest en opts src w) src = Some v
          \<longleftrightarrow> (\<exists>t k. imageSignal en src (getCrossOriginMode en src) = Signal t k \<and> timeout \<le> t
                 \<and> fst (imageHandler en opts src k (snd (fetchImage en opts src w))) = Resolved v))
     \<and> (imageSignal en src (getCrossOriginMode en src) = NoSignal
          \<longrightarrow> image (fetchImageAtRest en opts src w) src = None)
     \<and> (\<forall>t k. imageSignal en src (getCrossOriginMode en src) = Signal t k
            \<and> (\<forall>d. fst (imageHandler en opts src k (snd (fetchImage en opts src w))) \<noteq> Resolved d)
          \<longrightarrow> image (fetchImageAtRest en opts src w) src = None)"
proof -
  let ?w1 = "emit (ImageRequest src (getCrossOriginMode en src)) (emit (CacheHas ImageNS src) w)"
  from assms(1) have u: "image w src = None" "\<not> prefix ''data:image/'' src" "\<not> isSVG src"
    by (simp_all add: rasterRef_def)
  from assms(2) have settle: "fetchImage en opts src w = (Rejected ImageLoadTimedOut, ?w1)"
    by (auto simp: fetchImage_raster [OF assms(1)])
  have none: "image ?w1 src = None" by (simp add: u)
  have rest_none: "fetchImageAtRest en opts src w = ?w1"
    if "imageSignal en src (getCrossOriginMode en src) = NoSignal"
    using that u settle by (simp add: fetchImageAtRest_def)
  have rest_late: "fetchImageAtRest en opts src w = snd (imageHandler en opts src k ?w1)"
    if "imageSignal en src (getCrossOriginMode en src) = Signal t k" for t k
  proof -
    from assms(2) that have "\<not> t < timeout" by auto
    with that u settle show ?thesis by (simp add: fetchImageAtRest_def)
  qed
  have late: "image (fetchImageAtRest en opts src w) src =
      (case fst (imageHandler en opts src k ?w1) of
         Resolved v \<Rightarrow> Some v | Rejected e \<Rightarrow> None | Pending \<Rightarrow> None)"
    if "imageSignal en src (getCrossOriginMode en src) = Signal t k" for t k
    by (simp only: rest_late [OF that] image_imageHandler none)
  have iff: "image (fetchImageAtRest en opts src w) src = Some v
      \<longleftrightarrow> (\<exists>t k. imageSignal en src (getCrossOriginMode en src) = Signal t k \<and> timeout \<le> t
             \<and> fst (imageHandler en opts src k ?w1) = Resolved v)"
  proof (cases "imageSignal en src (getCrossOriginMode en src)")
    case NoSignal
    then show ?thesis by (simp add: rest_none u)
  next
    case (Signal t k)
    with assms(2) have "timeout \<le> t" by simp
    with Signal late [OF Signal] show ?thesis
      by (cases "fst (imageHandler en opts src k ?w1)") simp_all
  qed
  have fail: "image (fetchImageAtRest en opts src w) src = None"
    if "imageSignal en src (getCrossOriginMode en src) = Signal t k"
      and "\<forall>d. fst (imageHandler en opts src k ?w1) \<noteq> Resolved d" for t k
    using late [OF that(1)] that(2)
    by (cases "fst (imageHandler en opts src k ?w1)") simp_all
  show ?thesis
    using iff fail by (simp add: settle u rest_none timeout_def)
qed

theorem fetchImage_timeout_witness:
  "rasterRef example_world ''http://cdn/b.png''
   \<and> imageSignal (example_env\<lparr>imageSignal := (\<lambda>url mode. NoSignal)\<rparr>) ''http://cdn/b.png''
        (getCrossOriginMode (example_env\<lparr>imageSignal := (\<lambda>url mode. NoSignal)\<rparr>) ''http://cdn/b.png'')
       = NoSignal
   \<and> fst (fetchImage (example_env\<lparr>imageSignal := (\<lambda>url mode. NoSignal)\<rparr>) example_options
        ''http://cdn/b.png'' example_world) = Rejected ImageLoadTimedOut
   \<and> image (fetchImageAtRest (example_env\<lparr>imageSignal := (\<lambda>url mode. NoSignal)\<rparr>) example_options
        ''http://cdn/b.png'' example_world) ''http://cdn/b.png'' = None
   \<and> imageSignal example_late_error_env ''http://cdn/b.png''
        (getCrossOriginMode example_late_error_env ''http://cdn/b.png'') = Signal 6000 OnError
   \<and> timeout \<le> 6000
   \<and> fst (fetchImage example_late_error_env example_options ''http://cdn/b.png'' example_world)
       = Rejected ImageLoadTimedOut
   \<and> fst (imageHandler example_late_error_env example_options ''http://cdn/b.png'' OnError
        (snd (fetchImage example_late_error_env example_options ''http://cdn/b.png'' example_world)))
       = Rejected NoProxyProvided
   \<and> image (fetchImageAtRest example_late_error_env example_options ''http://cdn/b.png'' example_world)
        ''http://cdn/b.png'' = None"
proof -
  have r: "rasterRef example_world ''http://cdn/b.png''"
    by (simp add: rasterRef_def example_world_def svgHere_def)
  have s: "imageSignal (example_env\<lparr>imageSignal := (\<lambda>url mode. NoSignal)\<rparr>) ''http://cdn/b.png''
        (getCrossOriginMode (example_env\<lparr>imageSignal := (\<lambda>url mode. NoSignal)\<rparr>) ''http://cdn/b.png'')
       = NoSignal"
    by simp
  have l: "imageSignal example_late_error_env ''http://cdn/b.png''
        (getCrossOriginMode example_late_error_env ''http://cdn/b.png'') = Signal 6000 OnError"
    by (simp add: example_late_error_env_def)
  have t: "timeout \<le> 6000" by (simp add: timeout_def)
  have h: "fst (imageHandler example_late_error_env example_options ''http://cdn/b.png'' OnError w')
       = Rejected NoProxyProvided" for w'
    by (simp add: imageHandler_def fallbackAndCache_fst fetchWithFallback_fst fetchOutcome_def
        dataURLOfBlob_def example_late_error_env_def example_env_def example_options_def)
  have late: "imageSignal example_late_error_env ''http://cdn/b.png''
        (getCrossOriginMode example_late_error_env ''http://cdn/b.png'') = NoSignal
      \<or> (\<exists>t k. imageSignal example_late_error_env ''http://cdn/b.png''
            (getCrossOriginMode example_late_error_env ''http://cdn/b.png'') = Signal t k
          \<and> timeout \<le> t)"
    using l t by simp
  from fetchImage_timeout [OF r disjI1 [OF s], where opts = example_options]
    fetchImage_timeout [OF r late, where opts = example_options] r s l t h
  show ?thesis by simp
qed

text \<open>C6 as stated fails where the \<open>load\<close> signal comes after the timer: the promise is
  rejected with the timeout error, and the handler then stores the decoded image.\<close>

theorem fetchImage_timeout_counterexample:
  "rasterRef example_world ''http://cdn/b.png''
   \<and> imageSignal example_slow_env ''http://cdn/b.png''
        (getCrossOriginMode example_slow_env ''http://cdn/b.png'') = Signal 6000 OnLoad
   \<and> \<not> 6000 < timeout
   \<and> fst (fetchImage example_slow_env example_options ''http://cdn/b.png'' example_world)
        = Rejected ImageLoadTimedOut
   \<and> image (fetchImageAtRest example_slow_env example_options ''http://cdn/b.png'' example_world)
        ''http://cdn/b.png'' = Some ''data:image/png;base64,CCCC''"
proof -
  have r: "rasterRef example_world ''http://cdn/b.png''"
    by (simp add: rasterRef_def example_world_def svgHere_def)
  have s: "imageSignal example_slow_env ''http://cdn/b.png''
        (getCrossOriginMode example_slow_env ''http://cdn/b.png'') = Signal 6000 OnLoad"
    by (simp add: example_slow_env_def)
  have t: "\<not> 6000 < timeout" by (simp add: timeout_def)
  have z: "rasterize example_slow_env ''http://cdn/b.png'' = Encoded ''data:image/png;base64,CCCC''"
    by (simp add: example_slow_env_def)
  from r have u: "image example_world ''http://cdn/b.png'' = None"
    "\<not> prefix ''data:image/'' ''http://cdn/b.png''" "\<not> isSVG ''http://cdn/b.png''"
    by (simp_all add: rasterRef_def)
  have settle: "fetchImage example_slow_env example_options ''http://cdn/b.png'' example_world =
      (Rejected ImageLoadTimedOut,
       emit (ImageRequest ''http://cdn/b.png'' (getCrossOriginMode example_slow_env ''http://cdn/b.png''))
         (emit (CacheHas ImageNS ''http://cdn/b.png'') example_world))"
    by (simp add: fetchImage_raster [OF r] s t)
  have "image (fetchImageAtRest example_slow_env example_options ''http://cdn/b.png'' example_world)
        ''http://cdn/b.png'' = Some ''data:image/png;base64,CCCC''"
    unfolding fetchImageAtRest_def settle
    by (simp add: u s t z imageHandler_def Let_def del: isSVG.simps)
  with r s t settle show ?thesis by simp
qed

subsection \<open>inlineSingleBackgroundEntry\<close>

text \<open>
  C8: for an entry from which \<open>extractURL\<close> gets no payload (\<open>null\<close>, or the empty string),
  whether it is a gradient call, \<open>none\<close> or anything else, \<open>inlineSingleBackgroundEntry\<close>
  resolves with the entry itself and leaves the world as it found it: no rejection, no
  event on the background namespace of the cache added to the trace, nor any other.
\<close>

theorem inlineSingleBackgroundEntry_passthrough:
  assumes "extractURL en entry = None \<or> extractURL en entry = Some []"
  shows "inlineSingleBackgroundEntry en opts entry w = (Resolved (Some entry), w)
     \<and> filter (touches BackgroundNS) (trace (snd (inlineSingleBackgroundEntry en opts entry w)))
         = filter (touches BackgroundNS) (trace w)
     \<and> background (snd (inlineSingleBackgroundEntry en opts entry w)) = background w"
  using assms by (auto simp: inlineSingleBackgroundEntry_def Let_def)

theorem inlineSingleBackgroundEntry_passthrough_witness:
  "extractURL example_env ''linear-gradient(red, blue)'' = None
   \<and> isGradient ''linear-gradient(red, blue)''
   \<and> inlineSingleBackgroundEntry example_env example_options ''linear-gradient(red, blue)'' example_world
       = (Resolved (Some ''linear-gradient(red, blue)''), example_world)
   \<and> extractURL example_env ''none'' = None
   \<and> inlineSingleBackgroundEntry example_env example_options ''none'' example_world
       = (Resolved (Some ''none''), example_world)
   \<and> extractURL example_env ''image-set(x)'' = None
   \<and> \<not> isGradient ''image-set(x)''
   \<and> inlineSingleBackgroundEntry example_env example_options ''image-set(x)'' example_world
       = (Resolved (Some ''image-set(x)''), example_world)"
proof -
  have e: "extractURL example_env ''linear-gradient(red, blue)'' = None"
    "extractURL example_env ''none'' = None" "extractURL example_env ''image-set(x)'' = None"
    by (simp_all add: example_env_def)
  have g: "isGradient ''linear-gradient(red, blue)''" "\<not> isGradient ''image-set(x)''"
    by (simp_all add: isGradient_def lowerASCII_def)
  from inlineSingleBackgroundEntry_passthrough [OF disjI1 [OF e(1)], of example_options example_world]
    inlineSingleBackgroundEntry_passthrough [OF disjI1 [OF e(2)], of example_options example_world]
    inlineSingleBackgroundEntry_passthrough [OF disjI1 [OF e(3)], of example_options example_world]
    e g
  show ?thesis by simp
qed

subsection \<open>Cache hit after a miss\<close>

text \<open>After a miss that resolved, a call that finds the entry in the cache resolves with
  the same data in \<open>url(...)\<close>, but without the quotes that the miss put around it.\<close>

lemma inlineSingleBackgroundEntry_miss_then_hit:
  assumes "extractURL en entry = Some u" and "u \<noteq> []"
    and "\<not> truthy (skipInline opts)"
    and "background w (safeEncodeURI en u) = None"
    and "inlineSingleBackgroundEntry en opts entry w = (Resolved r1, w1)"
  shows "\<exists>d. r1 = Some (''url('' @ [dquote] @ d @ [dquote] @ '')'')
     \<and> fst (inlineSingleBackgroundEntry en opts entry w1) = Resolved (Some (''url('' @ d @ '')''))
     \<and> Some (''url('' @ d @ '')'') \<noteq> r1"
proof -
  let ?k = "safeEncodeURI en u"
  let ?w0 = "emit (CacheHas BackgroundNS ?k) w"
  obtain r w' where f: "fetchImage en opts ?k ?w0 = (r, w')"
    by (cases "fetchImage en opts ?k ?w0")
  from assms f obtain d where d: "r = Resolved d"
    and r1: "r1 = Some (''url('' @ [dquote] @ d @ [dquote] @ '')'')"
    and w1: "w1 = emit (CacheSet BackgroundNS ?k d) (w'\<lparr>background := (background w')(?k \<mapsto> d)\<rparr>)"
    by (cases r) (auto simp: inlineSingleBackgroundEntry_def Let_def)
  have hit: "background w1 ?k = Some d" by (simp add: w1)
  have "fst (inlineSingleBackgroundEntry en opts entry w1) = Resolved (Some (''url('' @ d @ '')''))"
    using assms(1-3) hit by (simp add: inlineSingleBackgroundEntry_def Let_def)
  moreover have "Some (''url('' @ d @ '')'') \<noteq> r1"
    by (simp add: r1 dquote_def)
  ultimately show ?thesis using r1 by blast
qed

text \<open>
  C3: with an empty cache, the first call on \<open>url(http://cdn/bg.png)\<close> misses, fetches and
  resolves with \<open>url("data:image/png;base64,DDDD")\<close>; the second call, on the world that the
  first left, hits the background cache and resolves with \<open>url(data:image/png;base64,DDDD)\<close>,
  which is another string.
\<close>

theorem inlineSingleBackgroundEntry_hit_unquoted:
  "fst (inlineSingleBackgroundEntry example_loading_env example_options ''url(http://cdn/bg.png)''
          example_world)
     = Resolved (Some (''url('' @ [dquote] @ ''data:image/png;base64,DDDD'' @ [dquote] @ '')''))
   \<and> background (snd (inlineSingleBackgroundEntry example_loading_env example_options
          ''url(http://cdn/bg.png)'' example_world)) ''http://cdn/bg.png''
     = Some ''data:image/png;base64,DDDD''
   \<and> fst (inlineSingleBackgroundEntry example_loading_env example_options ''url(http://cdn/bg.png)''
          (snd (inlineSingleBackgroundEntry example_loading_env example_options
                  ''url(http://cdn/bg.png)'' example_world)))
     = Resolved (Some ''url(data:image/png;base64,DDDD)'')
   \<and> fst (inlineSingleBackgroundEntry example_loading_env example_options ''url(http://cdn/bg.png)''
          (snd (inlineSingleBackgroundEntry example_loading_env example_options
                  ''url(http://cdn/bg.png)'' example_world)))
     \<noteq> fst (inlineSingleBackgroundEntry example_loading_env example_options ''url(http://cdn/bg.png)''
          example_world)"
proof -
  have x: "extractURL example_loading_env ''url(http://cdn/bg.png)'' = Some ''http://cdn/bg.png''"
    "safeEncodeURI example_loading_env ''http://cdn/bg.png'' = ''http://cdn/bg.png''"
    "\<not> truthy (skipInline example_options)"
    by (simp_all add: example_loading_env_def example_env_def example_options_def)
  have r: "rasterRef (emit (CacheHas BackgroundNS ''http://cdn/bg.png'') example_world) ''http://cdn/bg.png''"
    by (simp add: rasterRef_def example_world_def svgHere_def)
  have s: "imageSignal example_loading_env ''http://cdn/bg.png''
        (getCrossOriginMode example_loading_env ''http://cdn/bg.png'') = Signal 40 OnLoad"
    "rasterize example_loading_env ''http://cdn/bg.png'' = Encoded ''data:image/png;base64,DDDD''"
    "40 < timeout"
    by (simp_all add: example_loading_env_def timeout_def)
  have f: "fst (fetchImage example_loading_env example_options ''http://cdn/bg.png''
        (emit (CacheHas BackgroundNS ''http://cdn/bg.png'') example_world))
      = Resolved ''data:image/png;base64,DDDD''"
    by (simp add: fetchImage_raster [OF r] s imageHandler_def Let_def)
  have b: "background example_world ''http://cdn/bg.png'' = None"
    by (simp add: example_world_def)
  obtain w1 where first: "inlineSingleBackgroundEntry example_loading_env example_options
      ''url(http://cdn/bg.png)'' example_world
      = (Resolved (Some (''url('' @ [dquote] @ ''data:image/png;base64,DDDD'' @ [dquote] @ '')'')), w1)"
    and hit: "background w1 ''http://cdn/bg.png'' = Some ''data:image/png;base64,DDDD''"
    using f x b
    by (cases "fetchImage example_loading_env example_options ''http://cdn/bg.png''
        (emit (CacheHas BackgroundNS ''http://cdn/bg.png'') example_world)")
      (simp add: inlineSingleBackgroundEntry_def Let_def)
  have second: "fst (inlineSingleBackgroundEntry example_loading_env example_options
      ''url(http://cdn/bg.png)'' w1) = Resolved (Some ''url(data:image/png;base64,DDDD)'')"
    using x hit by (simp add: inlineSingleBackgroundEntry_def Let_def)
  show ?thesis
    by (simp add: first hit second dquote_def)
qed

subsection \<open>captureDOM\<close>

lemma runsNoHook_called: "(\<And>h. c \<noteq> CallRunHook h) \<Longrightarrow> runsNoHook (called c fn)"
  by (auto simp: runsNoHook_def called_def split: prod.splits)

lemma runsNoHook_skip: "runsNoHook (skip a)"
  by (simp add: runsNoHook_def skip_def)

lemma runsNoHook_cleanSandbox: "runsNoHook cleanSandbox"
  by (simp add: runsNoHook_def cleanSandbox_def)

lemma runsNoHook_andThen:
  assumes "runsNoHook m" and "\<And>a. runsNoHook (f a)"
  shows "runsNoHook (andThen m f)"
  unfolding runsNoHook_def
proof (intro allI)
  fix w h
  obtain r w1 cs where m: "m w = (r, w1, cs)" by (cases "m w")
  from assms(1) m have cs: "CallRunHook h \<notin> set cs"
    by (auto simp: runsNoHook_def dest: spec [of _ w])
  show "CallRunHook h \<notin> set (snd (snd (andThen m f w)))"
  proof (cases r)
    case (Resolved a)
    obtain r2 w2 cs2 where f: "f a w1 = (r2, w2, cs2)" by (cases "f a w1")
    from assms(2) [of a] f have "CallRunHook h \<notin> set cs2"
      by (auto simp: runsNoHook_def dest: spec [of _ w1])
    with cs m Resolved f show ?thesis by (simp add: andThen_def)
  next
    case (Rejected e)
    with cs m show ?thesis by (simp add: andThen_def)
  next
    case Pending
    with cs m show ?thesis by (simp add: andThen_def)
  qed
qed

lemma runsNoHook_case_prod:
  "(\<And>x y. runsNoHook (f x y)) \<Longrightarrow> runsNoHook (case p of (x, y) \<Rightarrow> f x y)"
  by (cases p) simp

lemma runsNoHook_if: "runsNoHook a \<Longrightarrow> runsNoHook b \<Longrightarrow> runsNoHook (if c then a else b)"
  by simp

lemma runsNoHook_captureDOM: "runsNoHook (captureDOM cb element opts)"
proof (cases element)
  case None
  then show ?thesis by (simp add: captureDOM_def runsNoHook_def)
next
  case (Some el)
  have "runsNoHook (captureDOM cb (Some el) opts)"
    unfolding captureDOM_def option.case
    by (intro runsNoHook_andThen runsNoHook_case_prod runsNoHook_if runsNoHook_called
        runsNoHook_skip runsNoHook_cleanSandbox) simp_all
  with Some show ?thesis by simp
qed

text \<open>When \<open>captureDOM\<close> resolves, no sandbox with \<open>position: absolute\<close> is left.\<close>

lemma cleansWhenResolved_andThen:
  assumes "\<And>a. cleansWhenResolved (f a)"
  shows "cleansWhenResolved (andThen m f)"
  unfolding cleansWhenResolved_def
proof (intro allI impI)
  fix w b
  assume res: "fst (andThen m f w) = Resolved b"
  obtain r w1 cs where m: "m w = (r, w1, cs)" by (cases "m w")
  with res obtain a where r: "r = Resolved a"
    by (cases r) (simp_all add: andThen_def)
  obtain r2 w2 cs2 where f: "f a w1 = (r2, w2, cs2)" by (cases "f a w1")
  from res m r f have "r2 = Resolved b" by (simp add: andThen_def)
  with assms [of a] f have "sandbox w2 \<noteq> Some ''absolute''"
    by (auto simp: cleansWhenResolved_def dest: spec [of _ w1])
  with m r f show "sandbox (fst (snd (andThen m f w))) \<noteq> Some ''absolute''"
    by (simp add: andThen_def)
qed

lemma cleansWhenResolved_case_prod:
  "(\<And>x y. cleansWhenResolved (f x y)) \<Longrightarrow> cleansWhenResolved (case p of (x, y) \<Rightarrow> f x y)"
  by (cases p) simp

lemma cleansWhenResolved_last: "cleansWhenResolved (andThen cleanSandbox (\<lambda>u. skip d))"
  by (simp add: cleansWhenResolved_def andThen_def cleanSandbox_def skip_def)

lemma captureDOM_resolved_cleans: "cleansWhenResolved (captureDOM cb element opts)"
proof (cases element)
  case None
  then show ?thesis by (simp add: captureDOM_def cleansWhenResolved_def)
next
  case (Some el)
  have "cleansWhenResolved (captureDOM cb (Some el) opts)"
    unfolding captureDOM_def option.case
    by (intro cleansWhenResolved_andThen cleansWhenResolved_case_prod cleansWhenResolved_last)
  with Some show ?thesis by simp
qed

text \<open>
  C1: whatever the collaborators, the element, the options and the world, \<open>runHook\<close> is not
  among the calls that \<open>captureDOM\<close> makes. On the example, with three plugins in the
  options, the capture resolves after exactly the six calls listed, none of them a hook,
  while \<open>runHook\<close> itself, run for \<open>afterRender\<close> on the same plugins, calls the functions
  0 and 1 that they bind to that name.
\<close>

theorem captureDOM_runs_no_hook:
  "CallRunHook hookName \<notin> set (snd (snd (captureDOM cb element opts w)))
   \<and> fst (captureDOM example_collaborators (Some 1)
            (example_options\<lparr>option_plugins := Some example_plugins\<rparr>) example_world)
       = Resolved ''data:image/svg+xml;charset=utf-8,X''
   \<and> snd (snd (captureDOM example_collaborators (Some 1)
            (example_options\<lparr>option_plugins := Some example_plugins\<rparr>) example_world))
       = [CallCacheReset, CallPrepareClone, CallInlineImages, CallInlineBackgroundImages,
          CallBuildSVGDataURL, CallSandboxRemove]
   \<and> map fst (snd (snd (runHook [] example_impl ''afterRender'' example_context))) = [0, 1]"
proof -
  have a: "CallRunHook hookName \<notin> set (snd (snd (captureDOM cb element opts w)))"
    using runsNoHook_captureDOM [of cb element opts] by (simp add: runsNoHook_def)
  have b: "captureDOM example_collaborators (Some 1)
            (example_options\<lparr>option_plugins := Some example_plugins\<rparr>) example_world
       = (Resolved ''data:image/svg+xml;charset=utf-8,X'',
          cache_reset example_world,
          [CallCacheReset, CallPrepareClone, CallInlineImages, CallInlineBackgroundImages,
           CallBuildSVGDataURL, CallSandboxRemove])"
    by (simp add: captureDOM_def andThen_def called_def skip_def idle_def cleanSandbox_def
        example_collaborators_def example_options_def example_world_def cache_reset_def)
  have c: "map fst (snd (snd (runHook [] example_impl ''afterRender'' example_context))) = [0, 1]"
    by (simp add: runHook_def example_context_def example_plugins_def example_impl_def
        normalizeEntry_def registry_get_def get_prop_def)
  from a b c show ?thesis by simp
qed

text \<open>
  C2: on the example where \<open>prepareClone\<close> has put the sandbox in the document and
  \<open>buildSVGDataURL\<close> rejects, \<open>captureDOM\<close> is rejected with that error, the sandbox is
  still in the document with \<open>position: absolute\<close>, and no removal is among the calls made;
  with the same collaborators and a \<open>buildSVGDataURL\<close> that resolves, the sandbox is gone.
\<close>

theorem captureDOM_error_leaves_sandbox:
  "fst (captureDOM example_failing_collaborators (Some 1) example_options example_world)
     = Rejected (Thrown ''serializeToString'')
   \<and> sandbox (fst (snd (captureDOM example_failing_collaborators (Some 1) example_options example_world)))
     = Some ''absolute''
   \<and> snd (snd (captureDOM example_failing_collaborators (Some 1) example_options example_world))
     = [CallCacheReset, CallPrepareClone, CallInlineImages, CallInlineBackgroundImages,
        CallBuildSVGDataURL]
   \<and> sandbox example_world = None
   \<and> sandbox (fst (snd (captureDOM example_collaborators (Some 1) example_options example_world)))
     = None"
  by (simp add: captureDOM_def andThen_def called_def skip_def idle_def cleanSandbox_def
      example_failing_collaborators_def example_collaborators_def example_options_def
      example_world_def cache_reset_def)

end
